theory Spec2Isabelle
  imports Main
begin

section \<open>Python built-ins used by the services\<close>

text \<open>
  The services convert user ids with \<^verbatim>\<open>str(user_id)\<close> and \<^verbatim>\<open>int(payload.get("sub"))\<close>, and the
  settings read integers with \<^verbatim>\<open>int(os.getenv(...))\<close>. Python's ints are unbounded, so they
  are \<^typ>\<open>int\<close>. A string is a list of characters, one \<^typ>\<open>char\<close> per code point, for
  the code points below 256; among these only the ASCII digits are decimal digits.
\<close>

datatype py_exception =
    ValueError
  | IntegrityError
  | PasswordValueError
  | UnknownHashError
  | ValidationError
  | HTTPException int string

definition digit_char :: "nat \<Rightarrow> char" where
  "digit_char d = ''0123456789'' ! d"

fun str_nat :: "nat \<Rightarrow> string" where
  "str_nat n = (if n < 10 then [digit_char n] else str_nat (n div 10) @ [digit_char (n mod 10)])"

declare str_nat.simps [simp del]

definition py_str :: "int \<Rightarrow> string" where
  "py_str i = (if i < 0 then CHR ''-'' # str_nat (nat (- i)) else str_nat (nat i))"

definition digit_val :: "char \<Rightarrow> nat option" where
  "digit_val c = map_of (zip ''0123456789'' [0 ..< 10]) c"

definition is_digit :: "char \<Rightarrow> bool" where
  "is_digit c = (digit_val c \<noteq> None)"

text \<open>
  The characters \<^verbatim>\<open>int(...)\<close> strips from both ends: the six ASCII blanks and, of the other
  code points below 256, U+0085 and U+00A0. The separators U+001C to U+001F are not
  stripped.
\<close>

definition is_space :: "char \<Rightarrow> bool" where
  "is_space c = (c \<in> set [CHR '' '', CHR 0x09, CHR 0x0A, CHR 0x0B, CHR 0x0C, CHR 0x0D,
                            CHR 0x85, CHR 0xA0])"

definition strip :: "string \<Rightarrow> string" where
  "strip s = rev (dropWhile is_space (rev (dropWhile is_space s)))"

text \<open>
  The digits of a decimal literal, with the single underscores Python allows between two
  digits; \<open>acc\<close> is the value read so far.
\<close>

fun digits_val :: "nat \<Rightarrow> string \<Rightarrow> nat option" where
  "digits_val acc [] = Some acc"
| "digits_val acc (c # cs) =
     (if c = CHR ''_'' then
        (case cs of [] \<Rightarrow> None
         | d # _ \<Rightarrow> if is_digit d then digits_val acc cs else None)
      else
        (case digit_val c of None \<Rightarrow> None
         | Some d \<Rightarrow> digits_val (10 * acc + d) cs))"

definition py_nat :: "string \<Rightarrow> nat option" where
  "py_nat s = (case s of [] \<Rightarrow> None
               | c # _ \<Rightarrow> if is_digit c then digits_val 0 s else None)"

text \<open>\<^verbatim>\<open>int(s)\<close>: \<open>None\<close> stands for the \<^verbatim>\<open>ValueError\<close> Python raises.\<close>

definition py_int :: "string \<Rightarrow> int option" where
  "py_int s =
     (case strip s of [] \<Rightarrow> None
      | c # cs \<Rightarrow>
          if c = CHR ''-'' then map_option (\<lambda>n. - int n) (py_nat cs)
          else if c = CHR ''+'' then map_option int (py_nat cs)
          else map_option int (py_nat (c # cs)))"

section \<open>Time\<close>

text \<open>
  A \<^verbatim>\<open>datetime\<close> is its number of microseconds since the epoch. \<^verbatim>\<open>calendar.timegm\<close>, which the
  JWT library applies to the \<^verbatim>\<open>exp\<close> and \<^verbatim>\<open>iat\<close> claims, drops the microseconds.
\<close>

type_synonym datetime = int

definition timedelta_hours :: "int \<Rightarrow> int" where
  "timedelta_hours h = h * 3600 * 1000000"

definition timedelta_days :: "int \<Rightarrow> int" where
  "timedelta_days d = d * 86400 * 1000000"

definition timegm :: "datetime \<Rightarrow> int" where
  "timegm t = t div 1000000"

text \<open>
  A \<^verbatim>\<open>datetime\<close> lies between \<^verbatim>\<open>datetime.min\<close> (year 1) and \<^verbatim>\<open>datetime.max\<close> (the end of
  the year 9999); adding a \<^verbatim>\<open>timedelta\<close> that leaves this range raises \<^verbatim>\<open>OverflowError\<close>.
\<close>

definition in_datetime_range :: "int \<Rightarrow> bool" where
  "in_datetime_range t = (- 62135596800000000 \<le> t \<and> t \<le> 253402300799999999)"

section \<open>Configuration (config.py)\<close>

record settings =
  JWT_SECRET_KEY :: string
  JWT_ALGORITHM :: string
  JWT_EXPIRATION_HOURS :: int
  JWT_REFRESH_EXPIRATION_DAYS :: int
  BCRYPT_COST :: int

text \<open>
  The process environment and the entries of the file \<^verbatim>\<open>.env\<close> are lists of names and
  values, in the order Python iterates over them. \<^verbatim>\<open>os.getenv\<close> looks a name up as it is
  written.
\<close>

type_synonym environment = "(string \<times> string) list"

definition getenv :: "environment \<Rightarrow> string \<Rightarrow> string \<Rightarrow> string" where
  "getenv environ k dflt = (case map_of environ k of None \<Rightarrow> dflt | Some v \<Rightarrow> v)"

text \<open>
  \<^verbatim>\<open>Settings\<close> is a pydantic \<^verbatim>\<open>BaseSettings\<close> with \<^verbatim>\<open>case_sensitive = False\<close> and
  \<^verbatim>\<open>env_file = ".env"\<close>. On construction each field takes the value of the environment
  variable of its name, then of the entry of \<^verbatim>\<open>.env\<close> of its name, names compared in lower
  case (of two names equal in lower case the later one counts), and else its class
  default.
\<close>

definition upper_chars :: string where
  "upper_chars = ''ABCDEFGHIJKLMNOPQRSTUVWXYZ'' @
      [CHR 0xC0, CHR 0xC1, CHR 0xC2, CHR 0xC3, CHR 0xC4, CHR 0xC5, CHR 0xC6, CHR 0xC7,
       CHR 0xC8, CHR 0xC9, CHR 0xCA, CHR 0xCB, CHR 0xCC, CHR 0xCD, CHR 0xCE, CHR 0xCF,
       CHR 0xD0, CHR 0xD1, CHR 0xD2, CHR 0xD3, CHR 0xD4, CHR 0xD5, CHR 0xD6, CHR 0xD8,
       CHR 0xD9, CHR 0xDA, CHR 0xDB, CHR 0xDC, CHR 0xDD, CHR 0xDE]"

definition lower_chars :: string where
  "lower_chars = ''abcdefghijklmnopqrstuvwxyz'' @
      [CHR 0xE0, CHR 0xE1, CHR 0xE2, CHR 0xE3, CHR 0xE4, CHR 0xE5, CHR 0xE6, CHR 0xE7,
       CHR 0xE8, CHR 0xE9, CHR 0xEA, CHR 0xEB, CHR 0xEC, CHR 0xED, CHR 0xEE, CHR 0xEF,
       CHR 0xF0, CHR 0xF1, CHR 0xF2, CHR 0xF3, CHR 0xF4, CHR 0xF5, CHR 0xF6, CHR 0xF8,
       CHR 0xF9, CHR 0xFA, CHR 0xFB, CHR 0xFC, CHR 0xFD, CHR 0xFE]"

definition lower_char :: "char \<Rightarrow> char" where
  "lower_char c = (case map_of (zip upper_chars lower_chars) c of None \<Rightarrow> c | Some l \<Rightarrow> l)"

definition lower :: "string \<Rightarrow> string" where
  "lower s = map lower_char s"

definition source_value :: "environment \<Rightarrow> string \<Rightarrow> string option" where
  "source_value vars field = map_of (rev (map (\<lambda>(k, v). (lower k, v)) vars)) (lower field)"

definition field_source :: "environment \<Rightarrow> environment \<Rightarrow> string \<Rightarrow> string option" where
  "field_source environ dotenv field =
     (case source_value environ field of
        Some v \<Rightarrow> Some v
      | None \<Rightarrow> source_value dotenv field)"

definition FIELD_NAMES :: "string list" where
  "FIELD_NAMES =
     [''DATABASE_URL'', ''JWT_SECRET_KEY'', ''JWT_ALGORITHM'', ''JWT_EXPIRATION_HOURS'',
      ''JWT_REFRESH_EXPIRATION_DAYS'', ''BCRYPT_COST'', ''SMTP_HOST'', ''SMTP_PORT'',
      ''SMTP_USER'', ''SMTP_PASSWORD'', ''SENDER_EMAIL'', ''SMTP_TIMEOUT'', ''REDIS_URL'',
      ''USE_REDIS'', ''APP_NAME'', ''APP_VERSION'', ''DEBUG'', ''CORS_ORIGINS'']"

text \<open>
  A string field takes a source value as it is. For the other fields pydantic converts
  the source value: \<open>validate_int\<close> is its conversion of a string to an \<^verbatim>\<open>int\<close> field
  (\<open>None\<close> when it rejects the string), and \<open>accepts field v\<close> says whether it accepts
  the string \<open>v\<close> for one of the fields the record above leaves out. Both are parameters.
\<close>

definition int_field ::
  "(string \<Rightarrow> int option) \<Rightarrow> environment \<Rightarrow> environment \<Rightarrow> string \<Rightarrow> int \<Rightarrow> int option" where
  "int_field validate_int environ dotenv field dflt =
     (case field_source environ dotenv field of
        None \<Rightarrow> Some dflt
      | Some v \<Rightarrow> validate_int v)"

definition str_field :: "environment \<Rightarrow> environment \<Rightarrow> string \<Rightarrow> string \<Rightarrow> string" where
  "str_field environ dotenv field dflt =
     (case field_source environ dotenv field of None \<Rightarrow> dflt | Some v \<Rightarrow> v)"

definition other_fields_valid ::
  "(string \<Rightarrow> string \<Rightarrow> bool) \<Rightarrow> environment \<Rightarrow> environment \<Rightarrow> bool" where
  "other_fields_valid accepts environ dotenv =
     list_all (\<lambda>field. case field_source environ dotenv field of
                          None \<Rightarrow> True
                        | Some v \<Rightarrow> accepts field v)
       [''SMTP_PORT'', ''SMTP_TIMEOUT'', ''USE_REDIS'', ''DEBUG'', ''CORS_ORIGINS'']"

text \<open>
  First the class body runs: each integer default goes through \<^verbatim>\<open>int(os.getenv(...))\<close>,
  which may raise \<^verbatim>\<open>ValueError\<close>. It yields the defaults of the three integer fields the
  record keeps.
\<close>

definition class_body :: "environment \<Rightarrow> py_exception + int \<times> int \<times> int" where
  "class_body environ =
     (case py_int (getenv environ ''JWT_EXPIRATION_HOURS'' ''24'') of
        None \<Rightarrow> Inl ValueError
      | Some hours \<Rightarrow>
     (case py_int (getenv environ ''JWT_REFRESH_EXPIRATION_DAYS'' ''7'') of
        None \<Rightarrow> Inl ValueError
      | Some days \<Rightarrow>
     (case py_int (getenv environ ''BCRYPT_COST'' ''12'') of
        None \<Rightarrow> Inl ValueError
      | Some cost \<Rightarrow>
     (case py_int (getenv environ ''SMTP_PORT'' ''587'') of
        None \<Rightarrow> Inl ValueError
      | Some smtp_port \<Rightarrow>
     (case py_int (getenv environ ''SMTP_TIMEOUT'' ''10'') of
        None \<Rightarrow> Inl ValueError
      | Some smtp_timeout \<Rightarrow> Inr (hours, days, cost))))))"

text \<open>
  Then the instance is built: an entry of \<^verbatim>\<open>.env\<close> that names no field, or a source value
  that pydantic does not accept for its field, raises \<^verbatim>\<open>ValidationError\<close>. The class
  declares no validator of its own, and class defaults are not validated.
\<close>

definition build_settings ::
  "(string \<Rightarrow> int option) \<Rightarrow> (string \<Rightarrow> string \<Rightarrow> bool) \<Rightarrow> environment \<Rightarrow> environment
     \<Rightarrow> int \<Rightarrow> int \<Rightarrow> int \<Rightarrow> py_exception + settings" where
  "build_settings validate_int accepts environ dotenv hours days cost =
     (if list_ex (\<lambda>(k, v). lower k \<notin> set (map lower FIELD_NAMES)) dotenv
      then Inl ValidationError
      else if \<not> other_fields_valid accepts environ dotenv
      then Inl ValidationError
      else
     (case int_field validate_int environ dotenv ''JWT_EXPIRATION_HOURS'' hours of
        None \<Rightarrow> Inl ValidationError
      | Some hours' \<Rightarrow>
     (case int_field validate_int environ dotenv ''JWT_REFRESH_EXPIRATION_DAYS'' days of
        None \<Rightarrow> Inl ValidationError
      | Some days' \<Rightarrow>
     (case int_field validate_int environ dotenv ''BCRYPT_COST'' cost of
        None \<Rightarrow> Inl ValidationError
      | Some cost' \<Rightarrow>
          Inr \<lparr> JWT_SECRET_KEY =
                  str_field environ dotenv ''JWT_SECRET_KEY''
                    (getenv environ ''JWT_SECRET_KEY''
                       ''your-secret-key-change-in-production-min-32-chars''),
                JWT_ALGORITHM =
                  str_field environ dotenv ''JWT_ALGORITHM''
                    (getenv environ ''JWT_ALGORITHM'' ''HS256''),
                JWT_EXPIRATION_HOURS = hours',
                JWT_REFRESH_EXPIRATION_DAYS = days',
                BCRYPT_COST = cost' \<rparr>))))"

definition Settings ::
  "(string \<Rightarrow> int option) \<Rightarrow> (string \<Rightarrow> string \<Rightarrow> bool) \<Rightarrow> environment \<Rightarrow> environment
     \<Rightarrow> py_exception + settings" where
  "Settings validate_int accepts environ dotenv =
     (case class_body environ of
        Inl e \<Rightarrow> Inl e
      | Inr (hours, days, cost) \<Rightarrow>
          build_settings validate_int accepts environ dotenv hours days cost)"

section \<open>Token codec (the JWT library as the services use it)\<close>

text \<open>
  A token string either does not parse as a signed JWT, or carries an algorithm header, a
  payload and a signature. The keyed signature function \<open>mac\<close> (HMAC-SHA256 for
  \<^verbatim>\<open>HS256\<close>), from algorithm, key and payload to signature bytes, is a parameter: nothing
  is assumed about it, and it is total: the algorithm is taken to be one the library
  supports with the key, and the key is not empty (\<^verbatim>\<open>jwt.encode\<close> raises
  \<^verbatim>\<open>InvalidKeyError\<close> for an empty key, so no token exists then). The payloads are those
  with the four claims the services write.
\<close>

record jwt_payload =
  claim_sub :: string
  claim_type :: string
  claim_exp :: int
  claim_iat :: int

datatype token =
    Malformed string
  | Jws string jwt_payload string

datatype jwt_error =
    DecodeError
  | InvalidAlgorithmError
  | InvalidSignatureError
  | ImmatureSignatureError
  | ExpiredSignatureError

type_synonym mac = "string \<Rightarrow> string \<Rightarrow> jwt_payload \<Rightarrow> string"

definition jwt_encode :: "mac \<Rightarrow> jwt_payload \<Rightarrow> string \<Rightarrow> string \<Rightarrow> token" where
  "jwt_encode mac payload key algorithm = Jws algorithm payload (mac algorithm key payload)"

text \<open>
  \<^verbatim>\<open>jwt.decode(token, key, algorithms=...)\<close> at clock reading \<open>now\<close>: the header and the
  signature are checked first, then \<^verbatim>\<open>iat\<close> (not in the future) and \<^verbatim>\<open>exp\<close>
  (expired when \<^verbatim>\<open>exp <= now\<close>), both in whole seconds against the clock.
\<close>

definition jwt_decode ::
  "mac \<Rightarrow> datetime \<Rightarrow> token \<Rightarrow> string \<Rightarrow> string list \<Rightarrow> jwt_error + jwt_payload" where
  "jwt_decode mac now token key algorithms =
     (case token of
        Malformed _ \<Rightarrow> Inl DecodeError
      | Jws alg payload sg \<Rightarrow>
          if alg \<notin> set algorithms then Inl InvalidAlgorithmError
          else if mac alg key payload \<noteq> sg then Inl InvalidSignatureError
          else if now < claim_iat payload * 1000000 then Inl ImmatureSignatureError
          else if claim_exp payload * 1000000 \<le> now then Inl ExpiredSignatureError
          else Inr payload)"

section \<open>Auth service: tokens (services/auth.py)\<close>

datatype log_line = Warning string | Info string

text \<open>
  \<^verbatim>\<open>create_access_token\<close> reads the clock twice (\<open>t1\<close> for \<^verbatim>\<open>exp\<close>, then \<open>t2\<close> for
  \<^verbatim>\<open>iat\<close>). The two issuers give the token the code returns; where the code raises instead
  (an expiry outside the range of \<^verbatim>\<open>datetime\<close>, an empty key) it returns no token.
\<close>

definition create_access_token ::
  "mac \<Rightarrow> settings \<Rightarrow> datetime \<Rightarrow> datetime \<Rightarrow> int \<Rightarrow> int option \<Rightarrow> token" where
  "create_access_token mac cfg t1 t2 user_id expires_in_hours =
     (let hours = (case expires_in_hours of None \<Rightarrow> JWT_EXPIRATION_HOURS cfg | Some h \<Rightarrow> h);
          payload = \<lparr> claim_sub = py_str user_id, claim_type = ''access'',
                      claim_exp = timegm (t1 + timedelta_hours hours), claim_iat = timegm t2 \<rparr>
      in jwt_encode mac payload (JWT_SECRET_KEY cfg) (JWT_ALGORITHM cfg))"

definition create_refresh_token ::
  "mac \<Rightarrow> settings \<Rightarrow> datetime \<Rightarrow> datetime \<Rightarrow> int \<Rightarrow> int option \<Rightarrow> token" where
  "create_refresh_token mac cfg t1 t2 user_id expires_in_days =
     (let days = (case expires_in_days of None \<Rightarrow> JWT_REFRESH_EXPIRATION_DAYS cfg | Some d \<Rightarrow> d);
          payload = \<lparr> claim_sub = py_str user_id, claim_type = ''refresh'',
                      claim_exp = timegm (t1 + timedelta_days days), claim_iat = timegm t2 \<rparr>
      in jwt_encode mac payload (JWT_SECRET_KEY cfg) (JWT_ALGORITHM cfg))"

text \<open>
  The verifiers return the lines they log and either the exception that escapes
  (\<^verbatim>\<open>int(...)\<close> is inside the \<^verbatim>\<open>try\<close>, but \<^verbatim>\<open>ValueError\<close> is not caught) or the returned
  value, \<open>None\<close> or the user id. Every error of the JWT library is an
  \<^verbatim>\<open>InvalidTokenError\<close>; \<^verbatim>\<open>ExpiredSignatureError\<close> is caught first.
\<close>

definition verify_access_token ::
  "mac \<Rightarrow> settings \<Rightarrow> datetime \<Rightarrow> token \<Rightarrow> log_line list \<times> (py_exception + int option)" where
  "verify_access_token mac cfg now token =
     (case jwt_decode mac now token (JWT_SECRET_KEY cfg) [JWT_ALGORITHM cfg] of
        Inl e \<Rightarrow>
          if e = ExpiredSignatureError then ([Warning ''Token expired''], Inr None)
          else ([Warning ''Invalid token''], Inr None)
      | Inr payload \<Rightarrow>
          if claim_type payload \<noteq> ''access'' then ([Warning ''Invalid token type''], Inr None)
          else (case py_int (claim_sub payload) of
                  None \<Rightarrow> ([], Inl ValueError)
                | Some user_id \<Rightarrow> ([], Inr (Some user_id))))"

definition verify_refresh_token ::
  "mac \<Rightarrow> settings \<Rightarrow> datetime \<Rightarrow> token \<Rightarrow> log_line list \<times> (py_exception + int option)" where
  "verify_refresh_token mac cfg now token =
     (case jwt_decode mac now token (JWT_SECRET_KEY cfg) [JWT_ALGORITHM cfg] of
        Inl e \<Rightarrow>
          if e = ExpiredSignatureError then ([Warning ''Refresh token expired''], Inr None)
          else ([Warning ''Invalid refresh token''], Inr None)
      | Inr payload \<Rightarrow>
          if claim_type payload \<noteq> ''refresh'' then ([Warning ''Invalid token type''], Inr None)
          else (case py_int (claim_sub payload) of
                  None \<Rightarrow> ([], Inl ValueError)
                | Some user_id \<Rightarrow> ([], Inr (Some user_id))))"

definition py_not :: "int option \<Rightarrow> bool" where
  \<comment> \<open>\<^verbatim>\<open>not user_id\<close>: true of \<^verbatim>\<open>None\<close> and of \<^verbatim>\<open>0\<close>\<close>
  "py_not v = (case v of None \<Rightarrow> True | Some i \<Rightarrow> i = 0)"

section \<open>Credential hasher\<close>

text \<open>
  The column \<^verbatim>\<open>password_hash\<close> holds a string: a bcrypt hash, which carries its salt
  next to the hash proper, or a string the hashing context does not identify. The key
  derivation \<open>kdf\<close> (salt, then password) is a parameter: it stands for bcrypt as the
  installed backend computes it. The random salt each call of \<^verbatim>\<open>hash_password\<close> draws is
  a parameter too.
\<close>

type_synonym kdf = "string \<Rightarrow> string \<Rightarrow> string"

record digest =
  digest_salt :: string
  digest_hash :: string

datatype stored_hash =
    Bcrypt digest
  | Unidentified string

text \<open>
  The hashing library refuses a password of more than 4096 characters and a password
  that contains the character NUL, with a \<^verbatim>\<open>PasswordValueError\<close>.
\<close>

definition password_rejected :: "string \<Rightarrow> bool" where
  "password_rejected password = (4096 < length password \<or> CHR 0x00 \<in> set password)"


text \<open>
  Verification identifies the stored hash first (\<^verbatim>\<open>UnknownHashError\<close> when it cannot),
  then checks the password as above, then recomputes the hash under the stored salt.
\<close>

definition verify_password :: "kdf \<Rightarrow> string \<Rightarrow> stored_hash \<Rightarrow> py_exception + bool" where
  "verify_password kdf password hashed =
     (case hashed of
        Unidentified _ \<Rightarrow> Inl UnknownHashError
      | Bcrypt dg \<Rightarrow>
          if password_rejected password then Inl PasswordValueError
          else Inr (kdf (digest_salt dg) password = digest_hash dg))"

section \<open>Data model (models/user.py)\<close>

text \<open>
  The rows of the tables \<^verbatim>\<open>users\<close>, \<^verbatim>\<open>roles\<close>, \<^verbatim>\<open>permissions\<close>, \<^verbatim>\<open>user_roles\<close> and
  \<^verbatim>\<open>role_permissions\<close>, with the columns the services read or write. The primary key
  \<^verbatim>\<open>id\<close> is \<open>user_id\<close>, \<open>role_id\<close>, \<open>perm_id\<close>. A table is the list of its rows, and
  \<^verbatim>\<open>query(...).filter(...).first()\<close> is \<^const>\<open>find\<close> on that list. The store checks the
  unique constraints on insert; column widths are not modelled.
\<close>

record user =
  user_id :: int
  username :: string
  email :: string
  password_hash :: stored_hash
  first_name :: "string option"
  last_name :: "string option"
  is_active :: bool
  is_email_verified :: bool
  last_login :: "datetime option"
  deleted_at :: "datetime option"

record role =
  role_id :: int
  role_name :: string
  role_description :: string
  role_level :: int
  is_system :: bool

record permission =
  perm_id :: int
  perm_name :: string
  perm_description :: string
  perm_module :: string

record user_role =
  ur_user_id :: int
  ur_role_id :: int
  assigned_at :: "datetime option"
  assigned_by :: "int option"
  expires_at :: "datetime option"

record db =
  users :: "user list"
  roles :: "role list"
  permissions :: "permission list"
  user_roles :: "user_role list"
  role_permissions :: "(int \<times> int) list"

definition empty_db :: db where
  "empty_db = \<lparr> users = [], roles = [], permissions = [], user_roles = [],
                 role_permissions = [] \<rparr>"

text \<open>The store allocates a primary key above every key of the table.\<close>

definition next_id :: "int list \<Rightarrow> int" where
  "next_id ids = fold max ids 0 + 1"

text \<open>\<^verbatim>\<open>user.roles\<close> and \<^verbatim>\<open>role.permissions\<close>, the relationships through the two link tables.\<close>

definition roles_of :: "db \<Rightarrow> user \<Rightarrow> role list" where
  "roles_of d u =
     filter (\<lambda>r. list_ex (\<lambda>e. ur_user_id e = user_id u \<and> ur_role_id e = role_id r) (user_roles d))
       (roles d)"

definition permissions_of :: "db \<Rightarrow> role \<Rightarrow> permission list" where
  "permissions_of d r =
     filter (\<lambda>p. (role_id r, perm_id p) \<in> set (role_permissions d)) (permissions d)"

text \<open>The methods of \<^verbatim>\<open>User\<close>: two nested loops add permission names to a set.\<close>

definition get_permissions :: "db \<Rightarrow> user \<Rightarrow> string set" where
  "get_permissions d u =
     fold (\<lambda>r acc. fold (\<lambda>p acc'. insert (perm_name p) acc') (permissions_of d r) acc)
       (roles_of d u) {}"

definition has_permission :: "db \<Rightarrow> user \<Rightarrow> string \<Rightarrow> bool" where
  "has_permission d u permission_name = (permission_name \<in> get_permissions d u)"

definition has_role :: "db \<Rightarrow> user \<Rightarrow> string \<Rightarrow> bool" where
  "has_role d u name = list_ex (\<lambda>r. role_name r = name) (roles_of d u)"

definition is_admin_user :: "db \<Rightarrow> user \<Rightarrow> bool" where
  "is_admin_user d u = (has_role d u ''admin'' \<or> has_role d u ''super_admin'')"

section \<open>Auth service: users (services/auth.py)\<close>


definition authenticate_user ::
  "kdf \<Rightarrow> datetime \<Rightarrow> db \<Rightarrow> string \<Rightarrow> string
     \<Rightarrow> log_line list \<times> (py_exception + user option) \<times> db" where
  "authenticate_user kdf now d email' password =
     (case find (\<lambda>u. email u = email') (users d) of
        None \<Rightarrow> ([Warning (''User not found: '' @ email')], Inr None, d)
      | Some u \<Rightarrow>
          (case verify_password kdf password (password_hash u) of
             Inl e \<Rightarrow> ([], Inl e, d)
           | Inr ok \<Rightarrow>
               if \<not> ok
               then ([Warning (''Invalid password: '' @ email')], Inr None, d)
               else if \<not> is_active u
               then ([Warning (''User inactive: '' @ email')], Inr None, d)
               else ([Info (''User authenticated: '' @ email')],
                     Inr (Some (u\<lparr>last_login := Some now\<rparr>)),
                     d\<lparr>users := map (\<lambda>r. if user_id r = user_id u
                                           then r\<lparr>last_login := Some now\<rparr> else r)
                                     (users d)\<rparr>)))"

definition get_current_user ::
  "mac \<Rightarrow> settings \<Rightarrow> datetime \<Rightarrow> db \<Rightarrow> token \<Rightarrow> log_line list \<times> (py_exception + user)" where
  "get_current_user mac cfg now d tok =
     (case verify_access_token mac cfg now tok of
        (lg, Inl e) \<Rightarrow> (lg, Inl e)
      | (lg, Inr uid) \<Rightarrow>
          if py_not uid
          then (lg, Inl (HTTPException 401 ''Invalid or expired token''))
          else (case find (\<lambda>u. Some (user_id u) = uid) (users d) of
                  None \<Rightarrow> (lg, Inl (HTTPException 404 ''User not found''))
                | Some u \<Rightarrow>
                    if \<not> is_active u
                    then (lg, Inl (HTTPException 403 ''User account is inactive''))
                    else (lg, Inr u)))"

section \<open>Routes (api/routes/auth.py)\<close>






section \<open>RBAC service (services/rbac.py)\<close>

text \<open>A \<^verbatim>\<open>user\<close> argument that may be \<^verbatim>\<open>None\<close> is a \<^typ>\<open>user option\<close>.\<close>

definition check_permission :: "db \<Rightarrow> user option \<Rightarrow> string \<Rightarrow> bool" where
  "check_permission d u permission_name =
     (case u of None \<Rightarrow> False
      | Some u' \<Rightarrow> if \<not> is_active u' then False else has_permission d u' permission_name)"

definition get_user_permissions :: "db \<Rightarrow> user option \<Rightarrow> string set" where
  "get_user_permissions d u =
     (case u of None \<Rightarrow> {}
      | Some u' \<Rightarrow> if \<not> is_active u' then {} else get_permissions d u')"

text \<open>
  \<^verbatim>\<open>assign_role\<close> appends to \<^verbatim>\<open>user.roles\<close>: the new link row gets the column defaults
  (\<^verbatim>\<open>assigned_at\<close> is the store's clock; the \<^verbatim>\<open>assigned_by\<close> argument is not written).
  \<^verbatim>\<open>remove_role\<close> deletes the link row.
\<close>

definition assign_role ::
  "datetime \<Rightarrow> db \<Rightarrow> user \<Rightarrow> string \<Rightarrow> user option \<Rightarrow> log_line list \<times> bool \<times> db" where
  "assign_role now d u name assigned_by' =
     (case find (\<lambda>r. role_name r = name) (roles d) of
        None \<Rightarrow> ([Warning (''Role not found: '' @ name)], False, d)
      | Some r \<Rightarrow>
          if r \<in> set (roles_of d u)
          then ([Warning (''User already has role: '' @ email u @ '' -> '' @ name)], False, d)
          else ([Info (''Role assigned: '' @ email u @ '' -> '' @ name)], True,
                d\<lparr>user_roles := user_roles d @
                    [\<lparr> ur_user_id = user_id u, ur_role_id = role_id r,
                       assigned_at = Some now, assigned_by = None, expires_at = None \<rparr>]\<rparr>))"

definition remove_role :: "db \<Rightarrow> user \<Rightarrow> string \<Rightarrow> log_line list \<times> bool \<times> db" where
  "remove_role d u name =
     (case find (\<lambda>r. role_name r = name) (roles d) of
        None \<Rightarrow> ([Warning (''Role not found: '' @ name)], False, d)
      | Some r \<Rightarrow>
          if r \<notin> set (roles_of d u)
          then ([Warning (''User doesn't have role: '' @ email u @ '' -> '' @ name)], False, d)
          else ([Info (''Role removed: '' @ email u @ '' -> '' @ name)], True,
                d\<lparr>user_roles :=
                    filter (\<lambda>e. \<not> (ur_user_id e = user_id u \<and> ur_role_id e = role_id r))
                      (user_roles d)\<rparr>))"

section \<open>Seed data (migrations/seed\_roles\_and\_permissions.py)\<close>

text \<open>The three tables of the seed script, in the order the script lists them.\<close>

definition SYSTEM_ROLES :: "(string \<times> string \<times> int \<times> bool) list" where
  "SYSTEM_ROLES =
     [(''super_admin'', ''Super administrator with full system access'', 40, True),
      (''admin'', ''Administrator with full access except system settings'', 30, True),
      (''editor'', ''Editor who can manage all content'', 20, True),
      (''author'', ''Author who can create and edit own content'', 10, True),
      (''user'', ''Regular user with basic access'', 0, True)]"

definition PERMISSIONS :: "(string \<times> (string \<times> string) list) list" where
  "PERMISSIONS =
     [(''users'',
        [(''users:list'', ''List all users''),
         (''users:create'', ''Create new user''),
         (''users:read'', ''View user details''),
         (''users:update'', ''Update user''),
         (''users:delete'', ''Delete user''),
         (''users:manage_roles'', ''Assign roles to users''),
         (''users:view_activity'', ''View user activity logs'')]),
      (''posts'',
        [(''posts:create'', ''Create blog post''),
         (''posts:read'', ''Read blog posts''),
         (''posts:update'', ''Update blog post''),
         (''posts:delete'', ''Delete blog post''),
         (''posts:publish'', ''Publish blog post''),
         (''posts:schedule'', ''Schedule blog post''),
         (''posts:bulk_update'', ''Bulk update posts'')]),
      (''comments'',
        [(''comments:create'', ''Create comment''),
         (''comments:read'', ''Read comments''),
         (''comments:update'', ''Update own comment''),
         (''comments:delete'', ''Delete comment''),
         (''comments:moderate'', ''Moderate comments''),
         (''comments:approve'', ''Approve comments'')]),
      (''analytics'',
        [(''analytics:view'', ''View analytics''),
         (''analytics:export'', ''Export analytics'')]),
      (''settings'',
        [(''settings:manage'', ''Manage system settings''),
         (''settings:manage_roles'', ''Manage roles and permissions'')])]"

definition ROLE_PERMISSIONS :: "(string \<times> string list) list" where
  "ROLE_PERMISSIONS =
     [(''super_admin'',
        [''users:list'', ''users:create'', ''users:read'', ''users:update'', ''users:delete'',
         ''users:manage_roles'', ''users:view_activity'',
         ''posts:create'', ''posts:read'', ''posts:update'', ''posts:delete'', ''posts:publish'',
         ''posts:schedule'', ''posts:bulk_update'',
         ''comments:create'', ''comments:read'', ''comments:update'', ''comments:delete'',
         ''comments:moderate'', ''comments:approve'',
         ''analytics:view'', ''analytics:export'',
         ''settings:manage'', ''settings:manage_roles'']),
      (''admin'',
        [''users:list'', ''users:create'', ''users:read'', ''users:update'', ''users:delete'',
         ''users:manage_roles'', ''users:view_activity'',
         ''posts:create'', ''posts:read'', ''posts:update'', ''posts:delete'', ''posts:publish'',
         ''posts:schedule'', ''posts:bulk_update'',
         ''comments:create'', ''comments:read'', ''comments:update'', ''comments:delete'',
         ''comments:moderate'', ''comments:approve'',
         ''analytics:view'', ''analytics:export'',
         ''settings:manage_roles'']),
      (''editor'',
        [''posts:create'', ''posts:read'', ''posts:update'', ''posts:delete'', ''posts:publish'',
         ''posts:schedule'', ''posts:bulk_update'',
         ''comments:read'', ''comments:moderate'', ''comments:approve'',
         ''users:read'']),
      (''author'',
        [''posts:create'', ''posts:read'', ''posts:update'',
         ''comments:create'', ''comments:read'']),
      (''user'',
        [''posts:read'',
         ''comments:create'', ''comments:read''])]"

text \<open>
  The first loop of \<^verbatim>\<open>seed_roles_and_permissions\<close>: a permission whose name the store does
  not hold yet is added to the session. The session does not autoflush, so the queries of
  a loop see the store as it was at the last commit; the commit then inserts the pending
  rows in order, each with a new key.
\<close>

definition pending_permissions :: "db \<Rightarrow> (string \<times> string \<times> string) list" where
  "pending_permissions d =
     concat (map (\<lambda>(module, perms).
        concat (map (\<lambda>(perm_name', perm_desc).
           (case find (\<lambda>p. perm_name p = perm_name') (permissions d) of
              None \<Rightarrow> [(perm_name', perm_desc, module)]
            | Some _ \<Rightarrow> [])) perms)) PERMISSIONS)"

definition insert_permission :: "string \<times> string \<times> string \<Rightarrow> db \<Rightarrow> db" where
  "insert_permission row d =
     (case row of (n, ds, m) \<Rightarrow>
        d\<lparr>permissions := permissions d @
            [\<lparr> perm_id = next_id (map perm_id (permissions d)), perm_name = n,
               perm_description = ds, perm_module = m \<rparr>]\<rparr>)"

text \<open>
  The second loop: a system role whose name the store does not hold is built with the
  permissions its entry of \<^verbatim>\<open>ROLE_PERMISSIONS\<close> names, each looked up by name and
  appended unless it is missing or already in \<^verbatim>\<open>role.permissions\<close>.
\<close>

definition role_permission_objects :: "db \<Rightarrow> string \<Rightarrow> permission list" where
  "role_permission_objects d name =
     (case map_of ROLE_PERMISSIONS name of
        None \<Rightarrow> []
      | Some names \<Rightarrow>
          fold (\<lambda>perm_name' ps.
                  (case find (\<lambda>p. perm_name p = perm_name') (permissions d) of
                     None \<Rightarrow> ps
                   | Some perm \<Rightarrow> if perm \<in> set ps then ps else ps @ [perm]))
            names [])"

definition pending_roles ::
  "db \<Rightarrow> ((string \<times> string \<times> int \<times> bool) \<times> permission list) list" where
  "pending_roles d =
     concat (map (\<lambda>role_config.
        (case find (\<lambda>r. role_name r = fst role_config) (roles d) of
           None \<Rightarrow> [(role_config, role_permission_objects d (fst role_config))]
         | Some _ \<Rightarrow> [])) SYSTEM_ROLES)"

definition insert_role :: "(string \<times> string \<times> int \<times> bool) \<times> permission list \<Rightarrow> db \<Rightarrow> db" where
  "insert_role row d =
     (case row of ((n, ds, lv, sys), perms) \<Rightarrow>
        (let rid = next_id (map role_id (roles d))
         in d\<lparr>roles := roles d @
                [\<lparr> role_id = rid, role_name = n, role_description = ds, role_level = lv,
                   is_system = sys \<rparr>],
              role_permissions := role_permissions d @ map (\<lambda>p. (rid, perm_id p)) perms\<rparr>))"

definition seed_roles_and_permissions :: "db \<Rightarrow> db" where
  "seed_roles_and_permissions d =
     (let d1 = fold insert_permission (pending_permissions d) d
      in fold insert_role (pending_roles d1) d1)"

section \<open>Sample parameters\<close>

text \<open>A signature function, a key derivation and a configuration to evaluate the model on.\<close>

definition sample_mac :: mac where
  "sample_mac alg key payload = alg @ key @ claim_sub payload @ claim_type payload"

definition sample_kdf :: kdf where
  "sample_kdf salt password = salt @ password"

definition short_env :: environment where
  "short_env = [(''JWT_SECRET_KEY'', ''short'')]"

text \<open>A stand-in for pydantic's check of the fields left out: every value is accepted.\<close>

definition sample_accepts :: "string \<Rightarrow> string \<Rightarrow> bool" where
  "sample_accepts field v = True"


definition sample_cfg :: settings where
  "sample_cfg = \<lparr> JWT_SECRET_KEY = ''k'', JWT_ALGORITHM = ''HS256'',
                   JWT_EXPIRATION_HOURS = 24, JWT_REFRESH_EXPIRATION_DAYS = 7,
                   BCRYPT_COST = 12 \<rparr>"

text \<open>
  A store with four users, all with the salt \<open>s\<close>: alice (active), bob (inactive), carol
  (active, with \<^verbatim>\<open>deleted_at\<close> set) and zed (active, with primary key 0); two roles, of
  which alice holds \<open>editor\<close>.
\<close>

definition sample_user :: "int \<Rightarrow> string \<Rightarrow> string \<Rightarrow> bool \<Rightarrow> datetime option \<Rightarrow> user" where
  "sample_user i name password active deleted =
     \<lparr> user_id = i, username = name, email = name @ ''@x.com'',
       password_hash =
         Bcrypt \<lparr> digest_salt = ''s'', digest_hash = sample_kdf ''s'' password \<rparr>,
       first_name = None, last_name = None,
       is_active = active, is_email_verified = False,
       last_login = None, deleted_at = deleted \<rparr>"

definition alice :: user where
  "alice = sample_user 1 ''alice'' ''password1'' True None"

definition bob :: user where
  "bob = sample_user 2 ''bob'' ''password2'' False None"

definition carol :: user where
  "carol = sample_user 3 ''carol'' ''password3'' True (Some 5)"

definition zed :: user where
  "zed = sample_user 0 ''zed'' ''password0'' True None"

definition editor_role :: role where
  "editor_role = \<lparr> role_id = 3, role_name = ''editor'',
                    role_description = ''Editor who can manage all content'',
                    role_level = 20, is_system = True \<rparr>"

definition author_role :: role where
  "author_role = \<lparr> role_id = 4, role_name = ''author'',
                    role_description = ''Author who can create and edit own content'',
                    role_level = 10, is_system = True \<rparr>"

definition sample_db :: db where
  "sample_db =
     \<lparr> users = [alice, bob, carol, zed],
       roles = [editor_role, author_role],
       permissions =
         [\<lparr> perm_id = 8, perm_name = ''posts:create'', perm_description = ''Create blog post'',
            perm_module = ''posts'' \<rparr>,
          \<lparr> perm_id = 9, perm_name = ''posts:read'', perm_description = ''Read blog posts'',
            perm_module = ''posts'' \<rparr>,
          \<lparr> perm_id = 11, perm_name = ''posts:delete'', perm_description = ''Delete blog post'',
            perm_module = ''posts'' \<rparr>],
       user_roles =
         [\<lparr> ur_user_id = 1, ur_role_id = 3, assigned_at = Some 0, assigned_by = None,
            expires_at = None \<rparr>,
          \<lparr> ur_user_id = 2, ur_role_id = 3, assigned_at = Some 0, assigned_by = None,
            expires_at = None \<rparr>],
       role_permissions = [(3, 8), (3, 9), (3, 11), (4, 8), (4, 9)] \<rparr>"

section \<open>Decimal round trip\<close>

lemma digit_val_digit_char: "d < 10 \<Longrightarrow> digit_val (digit_char d) = Some d"
proof -
  assume "d < 10"
  then have "d \<in> {0,1,2,3,4,5,6,7,8,9}" by auto
  then show ?thesis
    by (auto simp add: digit_val_def digit_char_def upt_conv_Cons)
qed

lemma is_digit_digit_char: "d < 10 \<Longrightarrow> is_digit (digit_char d)"
  by (simp add: is_digit_def digit_val_digit_char)

lemma not_digit_special:
  "\<not> is_digit CHR ''_''" "\<not> is_digit CHR ''-''" "\<not> is_digit CHR ''+''"
  by (simp_all add: is_digit_def digit_val_def upt_conv_Cons)

lemma is_digit_not_space: "is_digit c \<Longrightarrow> \<not> is_space c"
  by (auto simp add: is_digit_def digit_val_def is_space_def upt_conv_Cons)

lemma str_nat_digits: "c \<in> set (str_nat n) \<Longrightarrow> is_digit c"
proof (induction n arbitrary: c rule: str_nat.induct)
  case (1 n)
  show ?case
  proof (cases "n < 10")
    case True
    with "1.prems" show ?thesis
      by (simp add: str_nat.simps [of n] is_digit_digit_char)
  next
    case False
    with "1.prems" "1.IH" show ?thesis
      by (auto simp add: str_nat.simps [of n] is_digit_digit_char)
  qed
qed

lemma str_nat_not_Nil: "str_nat n \<noteq> []"
  by (simp add: str_nat.simps [of n])

lemma digits_val_snoc:
  "(\<And>c. c \<in> set xs \<Longrightarrow> is_digit c) \<Longrightarrow> d < 10 \<Longrightarrow>
   digits_val acc (xs @ [digit_char d]) = map_option (\<lambda>v. 10 * v + d) (digits_val acc xs)"
proof (induction xs arbitrary: acc)
  case Nil
  then show ?case
    using is_digit_digit_char [of d] not_digit_special(1)
    by (auto simp add: digit_val_digit_char)
next
  case (Cons c cs)
  have c: "is_digit c" using Cons.prems(1) by simp
  then have "c \<noteq> CHR ''_''" using not_digit_special(1) by auto
  moreover obtain k where "digit_val c = Some k" using c by (auto simp add: is_digit_def)
  ultimately show ?case using Cons by simp
qed

lemma digits_val_str_nat: "digits_val 0 (str_nat n) = Some n"
proof (induction n rule: str_nat.induct)
  case (1 n)
  show ?case
  proof (cases "n < 10")
    case True
    then show ?thesis
      using is_digit_digit_char [of n] not_digit_special(1)
      by (auto simp add: str_nat.simps [of n] digit_val_digit_char)
  next
    case False
    then have "digits_val 0 (str_nat n) =
        map_option (\<lambda>v. 10 * v + n mod 10) (digits_val 0 (str_nat (n div 10)))"
      by (simp add: str_nat.simps [of n] digits_val_snoc str_nat_digits)
    with False "1.IH" show ?thesis by simp
  qed
qed

lemma py_nat_str_nat: "py_nat (str_nat n) = Some n"
proof (cases "str_nat n")
  case Nil
  then show ?thesis by (simp add: str_nat_not_Nil)
next
  case (Cons c cs)
  then have "is_digit c" using str_nat_digits [of c n] by simp
  with Cons show ?thesis
    using digits_val_str_nat [of n] by (simp add: py_nat_def)
qed

lemma dropWhile_none: "(\<And>c. c \<in> set xs \<Longrightarrow> \<not> P c) \<Longrightarrow> dropWhile P xs = xs"
  by (cases xs) auto

lemma strip_no_space: "(\<And>c. c \<in> set s \<Longrightarrow> \<not> is_space c) \<Longrightarrow> strip s = s"
proof -
  assume ns: "\<And>c. c \<in> set s \<Longrightarrow> \<not> is_space c"
  have "dropWhile is_space s = s"
    using ns by (rule dropWhile_none)
  moreover have "dropWhile is_space (rev s) = rev s"
    by (rule dropWhile_none) (use ns in simp)
  ultimately show ?thesis
    by (simp only: strip_def rev_rev_ident)
qed

lemma py_str_no_space: "c \<in> set (py_str i) \<Longrightarrow> \<not> is_space c"
proof -
  assume c: "c \<in> set (py_str i)"
  have minus: "\<not> is_space CHR ''-''" by (simp add: is_space_def)
  from c have "c = CHR ''-'' \<or> (\<exists>n. c \<in> set (str_nat n))"
    by (auto simp add: py_str_def split: if_splits)
  then show ?thesis
    using minus str_nat_digits is_digit_not_space by blast
qed

text \<open>\<^verbatim>\<open>int(str(i)) == i\<close> for every Python int.\<close>

lemma py_int_py_str: "py_int (py_str i) = Some i"
proof -
  have s: "strip (py_str i) = py_str i"
    by (rule strip_no_space) (rule py_str_no_space)
  show ?thesis
  proof (cases "i < 0")
    case True
    with s show ?thesis
      by (simp add: py_int_def py_str_def py_nat_str_nat)
  next
    case False
    obtain c cs where cs: "str_nat (nat i) = c # cs"
      using str_nat_not_Nil [of "nat i"] by (cases "str_nat (nat i)") auto
    then have "is_digit c" using str_nat_digits [of c "nat i"] by simp
    then have "c \<noteq> CHR ''-''" "c \<noteq> CHR ''+''" using not_digit_special by auto
    with False s cs show ?thesis
      using py_nat_str_nat [of "nat i"] by (simp add: py_int_def py_str_def)
  qed
qed

section \<open>Token round trip, expiry and type discrimination\<close>

lemma jwt_decode_encode:
  "jwt_decode mac now (jwt_encode mac p key alg) key [alg] =
     (if now < claim_iat p * 1000000 then Inl ImmatureSignatureError
      else if claim_exp p * 1000000 \<le> now then Inl ExpiredSignatureError
      else Inr p)"
  by (simp add: jwt_decode_def jwt_encode_def)

lemma timegm_le: "timegm t * 1000000 \<le> t"
  by (simp add: timegm_def)

lemma iat_not_future: "t_iat \<le> now \<Longrightarrow> \<not> now < timegm t_iat * 1000000"
  using timegm_le [of t_iat] by linarith

lemma exp_elapsed: "t \<le> now \<Longrightarrow> timegm t * 1000000 \<le> now"
  using timegm_le [of t] by linarith

lemma verify_access_encoded:
  assumes "t_iat \<le> now"
  shows "verify_access_token mac cfg now
           (jwt_encode mac \<lparr> claim_sub = py_str u, claim_type = ty, claim_exp = timegm t,
                             claim_iat = timegm t_iat \<rparr> (JWT_SECRET_KEY cfg) (JWT_ALGORITHM cfg)) =
         (if timegm t * 1000000 \<le> now then ([Warning ''Token expired''], Inr None)
          else if ty \<noteq> ''access'' then ([Warning ''Invalid token type''], Inr None)
          else ([], Inr (Some u)))"
  using iat_not_future [OF assms]
  by (simp add: verify_access_token_def jwt_decode_encode py_int_py_str)

lemma verify_refresh_encoded:
  assumes "t_iat \<le> now"
  shows "verify_refresh_token mac cfg now
           (jwt_encode mac \<lparr> claim_sub = py_str u, claim_type = ty, claim_exp = timegm t,
                             claim_iat = timegm t_iat \<rparr> (JWT_SECRET_KEY cfg) (JWT_ALGORITHM cfg)) =
         (if timegm t * 1000000 \<le> now then ([Warning ''Refresh token expired''], Inr None)
          else if ty \<noteq> ''refresh'' then ([Warning ''Invalid token type''], Inr None)
          else ([], Inr (Some u)))"
  using iat_not_future [OF assms]
  by (simp add: verify_refresh_token_def jwt_decode_encode py_int_py_str)

text \<open>
  Claim C1. A token is issued for user id \<open>u\<close> with the clock read at \<open>t_exp\<close> and
  \<open>t_iat\<close>, under the time-to-live \<open>e\<close> (the configured one when \<open>e\<close> is \<open>None\<close>),
  and verified at a clock reading \<open>now\<close> not before \<open>t_iat\<close>.
  Before the expiry the token carries (the issue time plus the time-to-live, in whole
  seconds), \<open>verify_access_token\<close> returns \<open>u\<close> for an access token and
  \<open>verify_refresh_token\<close> returns \<open>u\<close> for a refresh token; in the same window each
  verifier rejects the other kind of token, returning \<open>None\<close> after logging
  "Invalid token type". Once the time-to-live has elapsed the verifier returns \<open>None\<close>
  after logging the expiry, although the signature is valid.
\<close>

theorem token_round_trip:
  fixes cfg :: settings and e :: "int option"
  defines "h \<equiv> (case e of None \<Rightarrow> JWT_EXPIRATION_HOURS cfg | Some x \<Rightarrow> x)"
  defines "dd \<equiv> (case e of None \<Rightarrow> JWT_REFRESH_EXPIRATION_DAYS cfg | Some x \<Rightarrow> x)"
  assumes "t_iat \<le> now"
  shows "(now < timegm (t_exp + timedelta_hours h) * 1000000 \<longrightarrow>
            verify_access_token mac cfg now (create_access_token mac cfg t_exp t_iat u e)
              = ([], Inr (Some u)) \<and>
            verify_refresh_token mac cfg now (create_access_token mac cfg t_exp t_iat u e)
              = ([Warning ''Invalid token type''], Inr None))
       \<and> (t_exp + timedelta_hours h \<le> now \<longrightarrow>
            verify_access_token mac cfg now (create_access_token mac cfg t_exp t_iat u e)
              = ([Warning ''Token expired''], Inr None))
       \<and> (now < timegm (t_exp + timedelta_days dd) * 1000000 \<longrightarrow>
            verify_refresh_token mac cfg now (create_refresh_token mac cfg t_exp t_iat u e)
              = ([], Inr (Some u)) \<and>
            verify_access_token mac cfg now (create_refresh_token mac cfg t_exp t_iat u e)
              = ([Warning ''Invalid token type''], Inr None))
       \<and> (t_exp + timedelta_days dd \<le> now \<longrightarrow>
            verify_refresh_token mac cfg now (create_refresh_token mac cfg t_exp t_iat u e)
              = ([Warning ''Refresh token expired''], Inr None))"
  using exp_elapsed [of "t_exp + timedelta_hours h" now]
    exp_elapsed [of "t_exp + timedelta_days dd" now]
  by (simp add: create_access_token_def create_refresh_token_def
      verify_access_encoded [OF assms(3)] verify_refresh_encoded [OF assms(3)] h_def dd_def)

text \<open>
  Under the sample configuration (24 hours, 7 days), tokens for user 42 issued at 1.2 s
  and 1.3 s: verified at 1.5 s, and again after eight days.
\<close>

theorem token_round_trip_witness:
  "verify_access_token sample_mac sample_cfg 1500000
     (create_access_token sample_mac sample_cfg 1200000 1300000 42 None) = ([], Inr (Some 42))
   \<and> verify_access_token sample_mac sample_cfg 1500000
     (create_refresh_token sample_mac sample_cfg 1200000 1300000 42 None)
       = ([Warning ''Invalid token type''], Inr None)
   \<and> verify_refresh_token sample_mac sample_cfg 1500000
     (create_access_token sample_mac sample_cfg 1200000 1300000 42 None)
       = ([Warning ''Invalid token type''], Inr None)
   \<and> verify_access_token sample_mac sample_cfg 691200000000
     (create_access_token sample_mac sample_cfg 1200000 1300000 42 None)
       = ([Warning ''Token expired''], Inr None)
   \<and> verify_refresh_token sample_mac sample_cfg 691200000000
     (create_refresh_token sample_mac sample_cfg 1200000 1300000 42 None)
       = ([Warning ''Refresh token expired''], Inr None)"
  using token_round_trip [where t_iat = 1300000 and now = 1500000 and t_exp = 1200000
      and e = None and cfg = sample_cfg and mac = sample_mac and u = 42]
    token_round_trip [where t_iat = 1300000 and now = 691200000000 and t_exp = 1200000
      and e = None and cfg = sample_cfg and mac = sample_mac and u = 42]
  by (simp add: timegm_def timedelta_hours_def timedelta_days_def sample_cfg_def)

section \<open>Registration and authentication\<close>



lemma sample_users_simps:
  "user_id (sample_user i n p a dl) = i"
  "email (sample_user i n p a dl) = n @ ''@x.com''"
  "username (sample_user i n p a dl) = n"
  "is_active (sample_user i n p a dl) = a"
  "deleted_at (sample_user i n p a dl) = dl"
  "password_hash (sample_user i n p a dl)
     = Bcrypt \<lparr> digest_salt = ''s'', digest_hash = sample_kdf ''s'' p \<rparr>"
  by (simp_all add: sample_user_def)








section \<open>Resolving the current user\<close>

lemma verify_access_created:
  assumes "t_iat \<le> now"
    and "now < timegm (t_exp + timedelta_hours
                  (case e of None \<Rightarrow> JWT_EXPIRATION_HOURS cfg | Some x \<Rightarrow> x)) * 1000000"
  shows "verify_access_token mac cfg now (create_access_token mac cfg t_exp t_iat uid e)
           = ([], Inr (Some uid))"
  using assms
  by (simp add: create_access_token_def verify_access_encoded)


lemma verify_access_raises:
  "verify_access_token mac cfg now tok = (lg, Inl err) \<Longrightarrow> err = ValueError"
  by (auto simp add: verify_access_token_def split: sum.splits if_splits option.splits)


lemma find_SomeD: "find P xs = Some x \<Longrightarrow> P x \<and> x \<in> set xs"
  by (induction xs) (auto split: if_splits)

lemma find_map_deleted_at:
  "find (\<lambda>r. P (user_id r) (email r)) (map (\<lambda>r. r\<lparr>deleted_at := f (user_id r)\<rparr>) xs)
     = map_option (\<lambda>r. r\<lparr>deleted_at := f (user_id r)\<rparr>)
         (find (\<lambda>r. P (user_id r) (email r)) xs)"
  by (induction xs) auto

lemma authenticate_deleted_at:
  "authenticate_user kdf now (d\<lparr>users := map (\<lambda>r. r\<lparr>deleted_at := f (user_id r)\<rparr>) (users d)\<rparr>) e p
     = (case authenticate_user kdf now d e p of
          (lg, res, d') \<Rightarrow>
            (lg, map_sum id (map_option (\<lambda>r. r\<lparr>deleted_at := f (user_id r)\<rparr>)) res,
             d'\<lparr>users := map (\<lambda>r. r\<lparr>deleted_at := f (user_id r)\<rparr>) (users d')\<rparr>))"
proof -
  have fm: "find (\<lambda>r. email r = e) (map (\<lambda>r. r\<lparr>deleted_at := f (user_id r)\<rparr>) (users d))
      = map_option (\<lambda>r. r\<lparr>deleted_at := f (user_id r)\<rparr>) (find (\<lambda>r. email r = e) (users d))"
    using find_map_deleted_at [of "\<lambda>i m. m = e" f "users d"] by simp
  show ?thesis
  proof (cases "find (\<lambda>r. email r = e) (users d)")
    case None
    with fm show ?thesis by (simp add: authenticate_user_def)
  next
    case (Some u)
    with fm show ?thesis
      by (cases "verify_password kdf p (password_hash u)")
         (auto simp add: authenticate_user_def)
  qed
qed

lemma get_current_user_deleted_at:
  "get_current_user mac cfg now
       (d\<lparr>users := map (\<lambda>r. r\<lparr>deleted_at := f (user_id r)\<rparr>) (users d)\<rparr>) tok
     = (case get_current_user mac cfg now d tok of
          (lg, res) \<Rightarrow> (lg, map_sum id (\<lambda>r. r\<lparr>deleted_at := f (user_id r)\<rparr>) res))"
proof -
  have fm: "\<And>k. find (\<lambda>r. Some (user_id r) = k)
                 (map (\<lambda>r. r\<lparr>deleted_at := f (user_id r)\<rparr>) (users d))
      = map_option (\<lambda>r. r\<lparr>deleted_at := f (user_id r)\<rparr>)
          (find (\<lambda>r. Some (user_id r) = k) (users d))"
    using find_map_deleted_at [of "\<lambda>i m. Some i = k" f "users d" for k] by simp
  show ?thesis
    by (simp add: get_current_user_def fm split: prod.splits sum.splits option.splits)
qed

text \<open>
  Claim C2, as the code has it. Neither \<open>authenticate_user\<close> nor \<open>get_current_user\<close>
  reads \<open>deleted_at\<close>: on the store with the \<open>deleted_at\<close> of every row replaced (by
  any function of the row's id), each logs the same lines and has the same outcome, up to
  that field in the rows it returns and stores. For an active user whose \<open>deleted_at\<close>
  is set: \<open>authenticate_user\<close> with the user's email and a password whose check returns
  true returns the user; \<open>get_current_user\<close> with an unexpired access token issued for
  the user's (nonzero) id returns the user. \<open>get_current_user\<close> answers 404 only when
  the token verifies to an id that no row of \<open>users\<close> has.
\<close>

theorem soft_deleted_user_authenticates:
  assumes "deleted_at u = Some t" and "is_active u"
  shows "authenticate_user kdf now
             (d\<lparr>users := map (\<lambda>r. r\<lparr>deleted_at := f (user_id r)\<rparr>) (users d)\<rparr>) e p
           = (case authenticate_user kdf now d e p of
                (lg, res, d') \<Rightarrow>
                  (lg, map_sum id (map_option (\<lambda>r. r\<lparr>deleted_at := f (user_id r)\<rparr>)) res,
                   d'\<lparr>users := map (\<lambda>r. r\<lparr>deleted_at := f (user_id r)\<rparr>) (users d')\<rparr>))
       \<and> get_current_user mac cfg now
             (d\<lparr>users := map (\<lambda>r. r\<lparr>deleted_at := f (user_id r)\<rparr>) (users d)\<rparr>) tok
           = (case get_current_user mac cfg now d tok of
                (lg, res) \<Rightarrow> (lg, map_sum id (\<lambda>r. r\<lparr>deleted_at := f (user_id r)\<rparr>) res))
       \<and> (find (\<lambda>r. email r = e) (users d) = Some u
            \<and> verify_password kdf p (password_hash u) = Inr True \<longrightarrow>
            fst (snd (authenticate_user kdf now d e p))
              = Inr (Some (u\<lparr>last_login := Some now\<rparr>)))
       \<and> (find (\<lambda>r. user_id r = user_id u) (users d) = Some u \<and> user_id u \<noteq> 0
            \<and> t_iat \<le> now
            \<and> now < timegm (t_exp + timedelta_hours
                  (case x of None \<Rightarrow> JWT_EXPIRATION_HOURS cfg | Some h \<Rightarrow> h)) * 1000000 \<longrightarrow>
            get_current_user mac cfg now d (create_access_token mac cfg t_exp t_iat (user_id u) x)
              = ([], Inr u))
       \<and> (snd (get_current_user mac cfg now d tok) = Inl (HTTPException 404 ''User not found'') \<longrightarrow>
            (\<exists>uid. snd (verify_access_token mac cfg now tok) = Inr (Some uid)
                 \<and> (\<forall>r\<in>set (users d). user_id r \<noteq> uid)))"
proof (intro conjI impI)
  show "authenticate_user kdf now
             (d\<lparr>users := map (\<lambda>r. r\<lparr>deleted_at := f (user_id r)\<rparr>) (users d)\<rparr>) e p
           = (case authenticate_user kdf now d e p of
                (lg, res, d') \<Rightarrow>
                  (lg, map_sum id (map_option (\<lambda>r. r\<lparr>deleted_at := f (user_id r)\<rparr>)) res,
                   d'\<lparr>users := map (\<lambda>r. r\<lparr>deleted_at := f (user_id r)\<rparr>) (users d')\<rparr>))"
    by (rule authenticate_deleted_at)
next
  show "get_current_user mac cfg now
             (d\<lparr>users := map (\<lambda>r. r\<lparr>deleted_at := f (user_id r)\<rparr>) (users d)\<rparr>) tok
           = (case get_current_user mac cfg now d tok of
                (lg, res) \<Rightarrow> (lg, map_sum id (\<lambda>r. r\<lparr>deleted_at := f (user_id r)\<rparr>) res))"
    by (rule get_current_user_deleted_at)
next
  assume "find (\<lambda>r. email r = e) (users d) = Some u
            \<and> verify_password kdf p (password_hash u) = Inr True"
  with assms(2)
  show "fst (snd (authenticate_user kdf now d e p)) = Inr (Some (u\<lparr>last_login := Some now\<rparr>))"
    by (simp add: authenticate_user_def)
next
  assume a: "find (\<lambda>r. user_id r = user_id u) (users d) = Some u \<and> user_id u \<noteq> 0
            \<and> t_iat \<le> now
            \<and> now < timegm (t_exp + timedelta_hours
                  (case x of None \<Rightarrow> JWT_EXPIRATION_HOURS cfg | Some h \<Rightarrow> h)) * 1000000"
  then have "verify_access_token mac cfg now
               (create_access_token mac cfg t_exp t_iat (user_id u) x)
             = ([], Inr (Some (user_id u)))"
    by (simp add: verify_access_created)
  with a assms(2)
  show "get_current_user mac cfg now d (create_access_token mac cfg t_exp t_iat (user_id u) x)
          = ([], Inr u)"
    by (simp add: get_current_user_def py_not_def)
next
  assume nf: "snd (get_current_user mac cfg now d tok) = Inl (HTTPException 404 ''User not found'')"
  obtain lg res where v: "verify_access_token mac cfg now tok = (lg, res)"
    by (cases "verify_access_token mac cfg now tok")
  with nf obtain uid where "res = Inr (Some uid)"
      "find (\<lambda>r. Some (user_id r) = Some uid) (users d) = None"
    using verify_access_raises [of mac cfg now tok lg]
    by (auto simp add: get_current_user_def py_not_def
        split: sum.splits option.splits if_splits)
  with v show "\<exists>uid. snd (verify_access_token mac cfg now tok) = Inr (Some uid)
                 \<and> (\<forall>r\<in>set (users d). user_id r \<noteq> uid)"
    by (auto simp add: find_None_iff)
qed

text \<open>
  On the sample store carol is active and has \<open>deleted_at = Some 5\<close>; the token for the
  id 99, which no user has, is answered with 404.
\<close>

theorem soft_deleted_user_authenticates_witness:
  "fst (snd (authenticate_user sample_kdf 7 sample_db ''carol@x.com'' ''password3''))
     = Inr (Some (carol\<lparr>last_login := Some 7\<rparr>))
   \<and> get_current_user sample_mac sample_cfg 1500000 sample_db
       (create_access_token sample_mac sample_cfg 1200000 1300000 3 None) = ([], Inr carol)
   \<and> get_current_user sample_mac sample_cfg 1500000 sample_db
       (create_access_token sample_mac sample_cfg 1200000 1300000 99 None)
       = ([], Inl (HTTPException 404 ''User not found''))"
  using soft_deleted_user_authenticates [where u = carol and t = 5 and d = sample_db
      and e = "''carol@x.com''" and p = "''password3''" and kdf = sample_kdf and now = 7]
    soft_deleted_user_authenticates [where u = carol and t = 5 and d = sample_db
      and mac = sample_mac and cfg = sample_cfg and now = 1500000 and t_exp = 1200000
      and t_iat = 1300000 and x = None
      and tok = "create_access_token sample_mac sample_cfg 1200000 1300000 99 None"]
  by (simp add: get_current_user_def py_not_def verify_access_created
      sample_cfg_def timegm_def timedelta_hours_def
      sample_db_def alice_def bob_def carol_def zed_def sample_users_simps
      verify_password_def password_rejected_def sample_kdf_def)

text \<open>
  The claim as the specification states it fails on the sample store: carol, whose
  \<open>deleted_at\<close> is set, is authenticated with her password and resolved from her token.
\<close>

theorem soft_deleted_counterexample:
  "deleted_at carol = Some 5
   \<and> fst (snd (authenticate_user sample_kdf 7 sample_db ''carol@x.com'' ''password3''))
       = Inr (Some (carol\<lparr>last_login := Some 7\<rparr>))
   \<and> get_current_user sample_mac sample_cfg 1500000 sample_db
       (create_access_token sample_mac sample_cfg 1200000 1300000 3 None) = ([], Inr carol)"
  by (simp add: authenticate_user_def get_current_user_def py_not_def
      verify_access_created sample_cfg_def timegm_def timedelta_hours_def
      sample_db_def alice_def bob_def carol_def zed_def sample_users_simps
      verify_password_def password_rejected_def sample_kdf_def)

text \<open>
  Claim C9. An access token issued for the user id 0 verifies, before it expires, to the
  id 0, and \<open>get_current_user\<close> answers it with 401 "Invalid or expired token", whatever
  the store holds: the guard \<^verbatim>\<open>if not user_id\<close> takes the id 0 for a failed verification.
\<close>

theorem user_id_zero_rejected:
  assumes "t_iat \<le> now"
    and "now < timegm (t_exp + timedelta_hours
                  (case x of None \<Rightarrow> JWT_EXPIRATION_HOURS cfg | Some h \<Rightarrow> h)) * 1000000"
  shows "verify_access_token mac cfg now (create_access_token mac cfg t_exp t_iat 0 x)
           = ([], Inr (Some 0))
       \<and> get_current_user mac cfg now d (create_access_token mac cfg t_exp t_iat 0 x)
           = ([], Inl (HTTPException 401 ''Invalid or expired token''))"
  using verify_access_created [OF assms, of mac 0]
  by (simp add: get_current_user_def py_not_def)

text \<open>On the sample store zed is an active user with the id 0.\<close>

theorem user_id_zero_rejected_witness:
  "user_id zed = 0 \<and> is_active zed \<and> zed \<in> set (users sample_db)
   \<and> get_current_user sample_mac sample_cfg 1500000 sample_db
       (create_access_token sample_mac sample_cfg 1200000 1300000 0 None)
       = ([], Inl (HTTPException 401 ''Invalid or expired token''))"
  using user_id_zero_rejected [where t_iat = 1300000 and now = 1500000 and t_exp = 1200000
      and x = None and cfg = sample_cfg and mac = sample_mac and d = sample_db]
  by (simp add: sample_cfg_def timegm_def timedelta_hours_def sample_db_def zed_def
      sample_users_simps)

section \<open>The refresh route\<close>






section \<open>Permission sets\<close>

lemma fold_insert_names:
  "fold (\<lambda>p acc. insert (perm_name p) acc) ps acc = acc \<union> perm_name ` set ps"
  by (induction ps arbitrary: acc) auto

lemma fold_roles_union:
  "fold (\<lambda>r acc. fold (\<lambda>p acc'. insert (perm_name p) acc') (g r) acc) rs acc
     = acc \<union> (\<Union>r\<in>set rs. perm_name ` set (g r))"
  by (induction rs arbitrary: acc) (auto simp add: fold_insert_names)

lemma get_permissions_union:
  "get_permissions d u = (\<Union>r\<in>set (roles_of d u). perm_name ` set (permissions_of d r))"
  by (simp add: get_permissions_def fold_roles_union)

text \<open>
  Claim C6. \<open>get_user_permissions\<close> of an active user is the union, over the roles the
  user holds, of the names of each role's permissions; for \<open>None\<close> and for a user who
  is not active it is the empty set. \<open>check_permission\<close> is false for \<open>None\<close> and for
  a user who is not active, for every permission name, and for an active user it is
  membership in that set.
\<close>

theorem permissions_union_fail_closed:
  "get_user_permissions d None = {}
   \<and> (\<not> is_active u \<longrightarrow> get_user_permissions d (Some u) = {})
   \<and> (is_active u \<longrightarrow>
        get_user_permissions d (Some u)
          = (\<Union>r\<in>set (roles_of d u). perm_name ` set (permissions_of d r)))
   \<and> \<not> check_permission d None n
   \<and> (\<not> is_active u \<longrightarrow> \<not> check_permission d (Some u) n)
   \<and> (is_active u \<longrightarrow> check_permission d (Some u) n = (n \<in> get_user_permissions d (Some u)))"
  by (simp add: get_user_permissions_def check_permission_def has_permission_def
      get_permissions_union)

text \<open>On the sample store alice is an active editor and bob an inactive one.\<close>

theorem permissions_union_fail_closed_witness:
  "is_active alice \<and> \<not> is_active bob
   \<and> get_user_permissions sample_db (Some alice)
       = {''posts:create'', ''posts:read'', ''posts:delete''}
   \<and> check_permission sample_db (Some alice) ''posts:delete''
   \<and> get_user_permissions sample_db (Some bob) = {}
   \<and> \<not> check_permission sample_db (Some bob) ''posts:read''"
  using permissions_union_fail_closed [where d = sample_db and u = alice
      and n = "''posts:delete''"]
    permissions_union_fail_closed [where d = sample_db and u = bob and n = "''posts:read''"]
  by (auto simp add: sample_db_def alice_def bob_def sample_users_simps roles_of_def
      permissions_of_def editor_role_def author_role_def)

section \<open>The seeded author role\<close>

lemma seeded_roles:
  "roles (seed_roles_and_permissions empty_db) =
     [\<lparr> role_id = 1, role_name = ''super_admin'',
        role_description = ''Super administrator with full system access'',
        role_level = 40, is_system = True \<rparr>,
      \<lparr> role_id = 2, role_name = ''admin'',
        role_description = ''Administrator with full access except system settings'',
        role_level = 30, is_system = True \<rparr>,
      \<lparr> role_id = 3, role_name = ''editor'',
        role_description = ''Editor who can manage all content'',
        role_level = 20, is_system = True \<rparr>,
      \<lparr> role_id = 4, role_name = ''author'',
        role_description = ''Author who can create and edit own content'',
        role_level = 10, is_system = True \<rparr>,
      \<lparr> role_id = 5, role_name = ''user'',
        role_description = ''Regular user with basic access'',
        role_level = 0, is_system = True \<rparr>]"
  by code_simp

lemma seeded_author_permissions:
  "map perm_name
     (filter (\<lambda>p. (4, perm_id p) \<in> set (role_permissions (seed_roles_and_permissions empty_db)))
        (permissions (seed_roles_and_permissions empty_db)))
   = [''posts:create'', ''posts:read'', ''posts:update'', ''comments:create'', ''comments:read'']"
  by code_simp

text \<open>
  Claim C5. The store is seeded from empty by \<open>seed_roles_and_permissions\<close>; users and
  role assignments are then any. For an active user whose roles are exactly the role named
  \<open>author\<close>, \<open>get_user_permissions\<close> is the set of the five names the seed table gives
  that role.
\<close>

theorem author_permissions:
  fixes us :: "user list" and urs :: "user_role list"
  defines "d \<equiv> (seed_roles_and_permissions empty_db)\<lparr>users := us, user_roles := urs\<rparr>"
  assumes "is_active u" and "map role_name (roles_of d u) = [''author'']"
  shows "get_user_permissions d (Some u)
           = {''posts:create'', ''posts:read'', ''posts:update'',
              ''comments:create'', ''comments:read''}"
proof -
  let ?author = "\<lparr> role_id = 4, role_name = ''author'',
        role_description = ''Author who can create and edit own content'',
        role_level = 10, is_system = True \<rparr>"
  have "roles_of d u = [?author]"
    using assms(3) by (simp add: roles_of_def d_def seeded_roles split: if_splits)
  then have "get_permissions d u = perm_name ` set (permissions_of d ?author)"
    by (simp add: get_permissions_union)
  also have "\<dots> = set (map perm_name (permissions_of d ?author))"
    by simp
  also have "map perm_name (permissions_of d ?author)
      = [''posts:create'', ''posts:read'', ''posts:update'', ''comments:create'', ''comments:read'']"
    using seeded_author_permissions by (simp add: permissions_of_def d_def)
  finally show ?thesis
    using assms(2) by (simp add: get_user_permissions_def)
qed

text \<open>Alice, holding the seeded role 4 (\<open>author\<close>) and nothing else.\<close>

theorem author_permissions_witness:
  "get_user_permissions
     ((seed_roles_and_permissions empty_db)
        \<lparr>users := [alice],
         user_roles := [\<lparr> ur_user_id = 1, ur_role_id = 4, assigned_at = Some 0,
                          assigned_by = None, expires_at = None \<rparr>]\<rparr>) (Some alice)
     = {''posts:create'', ''posts:read'', ''posts:update'', ''comments:create'',
        ''comments:read''}"
  using author_permissions [where u = alice and us = "[alice]"
      and urs = "[\<lparr> ur_user_id = 1, ur_role_id = 4, assigned_at = Some 0,
                      assigned_by = None, expires_at = None \<rparr>]"]
  by (simp add: roles_of_def seeded_roles alice_def sample_users_simps)

section \<open>Assigning and removing roles\<close>

lemma roles_of_iff:
  "r \<in> set (roles_of d u) \<longleftrightarrow>
     r \<in> set (roles d) \<and> (\<exists>e\<in>set (user_roles d). ur_user_id e = user_id u \<and> ur_role_id e = role_id r)"
  by (auto simp add: roles_of_def list_ex_iff)

text \<open>
  Claim C7. When no role has the name, \<open>assign_role\<close> and \<open>remove_role\<close> both return
  \<open>False\<close> after the warning "Role not found" and leave the store as it was. When the
  role \<open>r\<close> of that name is held by the user, \<open>assign_role\<close> returns \<open>False\<close> after
  the warning "User already has role" and changes nothing, and \<open>remove_role\<close> returns
  \<open>True\<close> and deletes the link rows of the user and \<open>r\<close>, after which the user does
  not hold \<open>r\<close>. When \<open>r\<close> is not held, \<open>assign_role\<close> returns \<open>True\<close> and
  appends exactly one link row, after which the user holds \<open>r\<close> and a second
  \<open>assign_role\<close> fails with "User already has role"; \<open>remove_role\<close> returns
  \<open>False\<close> after the warning "User doesn't have role".
\<close>

theorem assign_remove_role:
  fixes u :: user and r :: role and now :: datetime
  defines "edge \<equiv> \<lparr> ur_user_id = user_id u, ur_role_id = role_id r,
                      assigned_at = Some now, assigned_by = None, expires_at = None \<rparr>"
  shows
  "(find (\<lambda>r. role_name r = n) (roles d) = None \<longrightarrow>
      assign_role now d u n granter = ([Warning (''Role not found: '' @ n)], False, d)
    \<and> remove_role d u n = ([Warning (''Role not found: '' @ n)], False, d))
 \<and> (find (\<lambda>r. role_name r = n) (roles d) = Some r \<and> r \<in> set (roles_of d u) \<longrightarrow>
      assign_role now d u n granter
        = ([Warning (''User already has role: '' @ email u @ '' -> '' @ n)], False, d)
    \<and> remove_role d u n
        = ([Info (''Role removed: '' @ email u @ '' -> '' @ n)], True,
           d\<lparr>user_roles := filter (\<lambda>e. \<not> (ur_user_id e = user_id u \<and> ur_role_id e = role_id r))
                             (user_roles d)\<rparr>)
    \<and> r \<notin> set (roles_of
           (d\<lparr>user_roles := filter (\<lambda>e. \<not> (ur_user_id e = user_id u \<and> ur_role_id e = role_id r))
                             (user_roles d)\<rparr>) u))
 \<and> (find (\<lambda>r. role_name r = n) (roles d) = Some r \<and> r \<notin> set (roles_of d u) \<longrightarrow>
      assign_role now d u n granter
        = ([Info (''Role assigned: '' @ email u @ '' -> '' @ n)], True,
           d\<lparr>user_roles := user_roles d @ [edge]\<rparr>)
    \<and> r \<in> set (roles_of (d\<lparr>user_roles := user_roles d @ [edge]\<rparr>) u)
    \<and> assign_role now' (d\<lparr>user_roles := user_roles d @ [edge]\<rparr>) u n granter'
        = ([Warning (''User already has role: '' @ email u @ '' -> '' @ n)], False,
           d\<lparr>user_roles := user_roles d @ [edge]\<rparr>)
    \<and> remove_role d u n
        = ([Warning (''User doesn't have role: '' @ email u @ '' -> '' @ n)], False, d))"
proof (intro conjI impI)
  assume "find (\<lambda>r. role_name r = n) (roles d) = None"
  then show "assign_role now d u n granter = ([Warning (''Role not found: '' @ n)], False, d)"
    and "remove_role d u n = ([Warning (''Role not found: '' @ n)], False, d)"
    by (simp_all add: assign_role_def remove_role_def)
next
  assume a: "find (\<lambda>r. role_name r = n) (roles d) = Some r \<and> r \<in> set (roles_of d u)"
  then show "assign_role now d u n granter
        = ([Warning (''User already has role: '' @ email u @ '' -> '' @ n)], False, d)"
    by (simp add: assign_role_def)
  from a show "remove_role d u n
        = ([Info (''Role removed: '' @ email u @ '' -> '' @ n)], True,
           d\<lparr>user_roles := filter (\<lambda>e. \<not> (ur_user_id e = user_id u \<and> ur_role_id e = role_id r))
                             (user_roles d)\<rparr>)"
    by (simp add: remove_role_def)
  show "r \<notin> set (roles_of
           (d\<lparr>user_roles := filter (\<lambda>e. \<not> (ur_user_id e = user_id u \<and> ur_role_id e = role_id r))
                             (user_roles d)\<rparr>) u)"
    by (auto simp add: roles_of_iff)
next
  assume a: "find (\<lambda>r. role_name r = n) (roles d) = Some r \<and> r \<notin> set (roles_of d u)"
  then show "assign_role now d u n granter
        = ([Info (''Role assigned: '' @ email u @ '' -> '' @ n)], True,
           d\<lparr>user_roles := user_roles d @ [edge]\<rparr>)"
    by (simp add: assign_role_def edge_def)
  from a have "r \<in> set (roles d)" by (auto dest: find_SomeD)
  then show held: "r \<in> set (roles_of (d\<lparr>user_roles := user_roles d @ [edge]\<rparr>) u)"
    by (simp add: roles_of_iff edge_def)
  from a held show "assign_role now' (d\<lparr>user_roles := user_roles d @ [edge]\<rparr>) u n granter'
        = ([Warning (''User already has role: '' @ email u @ '' -> '' @ n)], False,
           d\<lparr>user_roles := user_roles d @ [edge]\<rparr>)"
    by (simp add: assign_role_def)
  from a show "remove_role d u n
        = ([Warning (''User doesn't have role: '' @ email u @ '' -> '' @ n)], False, d)"
    by (simp add: remove_role_def)
qed

text \<open>
  On the sample store alice holds \<open>editor\<close> and not \<open>author\<close>, and no role is named
  \<open>admin\<close>.
\<close>

theorem assign_remove_role_witness:
  "assign_role 9 sample_db alice ''admin'' None = ([Warning ''Role not found: admin''], False, sample_db)
   \<and> remove_role sample_db alice ''admin'' = ([Warning ''Role not found: admin''], False, sample_db)
   \<and> assign_role 9 sample_db alice ''editor'' None
       = ([Warning ''User already has role: alice@x.com -> editor''], False, sample_db)
   \<and> remove_role sample_db alice ''editor''
       = ([Info ''Role removed: alice@x.com -> editor''], True,
          sample_db\<lparr>user_roles :=
            [\<lparr> ur_user_id = 2, ur_role_id = 3, assigned_at = Some 0, assigned_by = None,
               expires_at = None \<rparr>]\<rparr>)
   \<and> assign_role 9 sample_db alice ''author'' None
       = ([Info ''Role assigned: alice@x.com -> author''], True,
          sample_db\<lparr>user_roles := user_roles sample_db @
            [\<lparr> ur_user_id = 1, ur_role_id = 4, assigned_at = Some 9, assigned_by = None,
               expires_at = None \<rparr>]\<rparr>)
   \<and> remove_role sample_db alice ''author''
       = ([Warning ''User doesn't have role: alice@x.com -> author''], False, sample_db)"
  using assign_remove_role [where d = sample_db and u = alice and n = "''admin''" and now = 9
      and granter = None]
    assign_remove_role [where d = sample_db and u = alice and n = "''editor''" and now = 9
      and granter = None and r = editor_role]
    assign_remove_role [where d = sample_db and u = alice and n = "''author''" and now = 9
      and granter = None and r = author_role]
  by (simp add: sample_db_def alice_def sample_users_simps roles_of_def
      editor_role_def author_role_def)

section \<open>The signing secret in the configuration\<close>

lemma lower_field_names:
  "lower ''JWT_SECRET_KEY'' = ''jwt_secret_key''"
  "lower ''JWT_ALGORITHM'' = ''jwt_algorithm''"
  "lower ''JWT_EXPIRATION_HOURS'' = ''jwt_expiration_hours''"
  "lower ''JWT_REFRESH_EXPIRATION_DAYS'' = ''jwt_refresh_expiration_days''"
  "lower ''BCRYPT_COST'' = ''bcrypt_cost''"
  "lower ''SMTP_PORT'' = ''smtp_port''"
  "lower ''SMTP_TIMEOUT'' = ''smtp_timeout''"
  "lower ''USE_REDIS'' = ''use_redis''"
  "lower ''DEBUG'' = ''debug''"
  "lower ''CORS_ORIGINS'' = ''cors_origins''"
  by (simp_all add: lower_def lower_char_def upper_chars_def lower_chars_def)

lemma source_value_append:
  "source_value (vars @ [(k, s)]) field
     = (if lower field = lower k then Some s else source_value vars field)"
  by (simp add: source_value_def)

lemma field_source_append:
  "field_source (environ @ [(k, s)]) dotenv field
     = (if lower field = lower k then Some s else field_source environ dotenv field)"
  by (simp add: field_source_def source_value_append)

lemma getenv_append_other:
  "field \<noteq> k \<Longrightarrow> getenv (environ @ [(k, s)]) field dflt = getenv environ field dflt"
  by (simp add: getenv_def map_add_def split: option.splits)

lemma getenv_secret_appended:
  "getenv (environ @ [(''JWT_SECRET_KEY'', s)]) ''JWT_EXPIRATION_HOURS'' dflt
     = getenv environ ''JWT_EXPIRATION_HOURS'' dflt"
  "getenv (environ @ [(''JWT_SECRET_KEY'', s)]) ''JWT_REFRESH_EXPIRATION_DAYS'' dflt
     = getenv environ ''JWT_REFRESH_EXPIRATION_DAYS'' dflt"
  "getenv (environ @ [(''JWT_SECRET_KEY'', s)]) ''BCRYPT_COST'' dflt
     = getenv environ ''BCRYPT_COST'' dflt"
  "getenv (environ @ [(''JWT_SECRET_KEY'', s)]) ''SMTP_PORT'' dflt
     = getenv environ ''SMTP_PORT'' dflt"
  "getenv (environ @ [(''JWT_SECRET_KEY'', s)]) ''SMTP_TIMEOUT'' dflt
     = getenv environ ''SMTP_TIMEOUT'' dflt"
  "getenv (environ @ [(''JWT_SECRET_KEY'', s)]) ''JWT_ALGORITHM'' dflt
     = getenv environ ''JWT_ALGORITHM'' dflt"
  by (simp_all add: getenv_append_other)

lemma class_body_append:
  "class_body (environ @ [(''JWT_SECRET_KEY'', s)]) = class_body environ"
  by (simp add: class_body_def getenv_secret_appended cong: option.case_cong)

lemma build_settings_append:
  "build_settings vi va (environ @ [(''JWT_SECRET_KEY'', s)]) dotenv h d c
     = (case build_settings vi va environ dotenv h d c of
          Inl err \<Rightarrow> Inl err
        | Inr c' \<Rightarrow> Inr (c'\<lparr>JWT_SECRET_KEY := s\<rparr>))"
  by (simp add: build_settings_def getenv_secret_appended field_source_append
      lower_field_names int_field_def str_field_def other_fields_valid_def
      split: option.splits)

lemma settings_secret_appended:
  "Settings vi va (environ @ [(''JWT_SECRET_KEY'', s)]) dotenv
     = (case Settings vi va environ dotenv of
          Inl err \<Rightarrow> Inl err
        | Inr c \<Rightarrow> Inr (c\<lparr>JWT_SECRET_KEY := s\<rparr>))"
  by (simp add: Settings_def class_body_append build_settings_append
      split: sum.splits prod.splits)

lemma py_int_defaults:
  "py_int ''24'' = Some 24" "py_int ''7'' = Some 7" "py_int ''12'' = Some 12"
  "py_int ''587'' = Some 587" "py_int ''10'' = Some 10"
  by code_simp+

lemma settings_defaults:
  "Settings vi va [] []
     = Inr \<lparr> JWT_SECRET_KEY = ''your-secret-key-change-in-production-min-32-chars'',
             JWT_ALGORITHM = ''HS256'', JWT_EXPIRATION_HOURS = 24,
             JWT_REFRESH_EXPIRATION_DAYS = 7, BCRYPT_COST = 12 \<rparr>"
  by (simp add: Settings_def class_body_def build_settings_def getenv_def py_int_defaults
      int_field_def str_field_def field_source_def source_value_def other_fields_valid_def)

text \<open>
  Claim C8, as the code has it. \<open>Settings\<close> puts no bound on the length of the signing
  secret. Adding the variable \<^verbatim>\<open>JWT_SECRET_KEY\<close> with any value \<open>s\<close> to an environment
  leaves the construction failing or succeeding as it does without it, and a
  configuration it returns has the secret \<open>s\<close>. With nothing set the secret is the
  default, which has 49 characters. With only the secret set, to any \<open>s\<close>, the
  construction succeeds; if \<open>s\<close> is not empty, an access token issued under that
  configuration (at a clock reading that leaves its expiry a \<^verbatim>\<open>datetime\<close>) verifies
  before its expiry.
\<close>

theorem settings_accept_any_secret:
  fixes s :: string
  defines "c \<equiv> \<lparr> JWT_SECRET_KEY = s, JWT_ALGORITHM = ''HS256'', JWT_EXPIRATION_HOURS = 24,
                  JWT_REFRESH_EXPIRATION_DAYS = 7, BCRYPT_COST = 12 \<rparr>"
  shows "Settings vi va (environ @ [(''JWT_SECRET_KEY'', s)]) dotenv
           = (case Settings vi va environ dotenv of
                Inl err \<Rightarrow> Inl err
              | Inr c' \<Rightarrow> Inr (c'\<lparr>JWT_SECRET_KEY := s\<rparr>))
       \<and> Settings vi va [] []
           = Inr \<lparr> JWT_SECRET_KEY = ''your-secret-key-change-in-production-min-32-chars'',
                   JWT_ALGORITHM = ''HS256'', JWT_EXPIRATION_HOURS = 24,
                   JWT_REFRESH_EXPIRATION_DAYS = 7, BCRYPT_COST = 12 \<rparr>
       \<and> length ''your-secret-key-change-in-production-min-32-chars'' = 49
       \<and> Settings vi va [(''JWT_SECRET_KEY'', s)] [] = Inr c
       \<and> (s \<noteq> [] \<and> in_datetime_range (t_exp + timedelta_hours 24) \<and> t_iat \<le> now
            \<and> now < timegm (t_exp + timedelta_hours 24) * 1000000 \<longrightarrow>
            verify_access_token mac c now (create_access_token mac c t_exp t_iat u None)
              = ([], Inr (Some u)))"
proof (intro conjI impI)
  show "Settings vi va (environ @ [(''JWT_SECRET_KEY'', s)]) dotenv
           = (case Settings vi va environ dotenv of
                Inl err \<Rightarrow> Inl err
              | Inr c' \<Rightarrow> Inr (c'\<lparr>JWT_SECRET_KEY := s\<rparr>))"
    by (rule settings_secret_appended)
  show "Settings vi va [] []
           = Inr \<lparr> JWT_SECRET_KEY = ''your-secret-key-change-in-production-min-32-chars'',
                   JWT_ALGORITHM = ''HS256'', JWT_EXPIRATION_HOURS = 24,
                   JWT_REFRESH_EXPIRATION_DAYS = 7, BCRYPT_COST = 12 \<rparr>"
    by (rule settings_defaults)
  show "length ''your-secret-key-change-in-production-min-32-chars'' = 49"
    by simp
  show "Settings vi va [(''JWT_SECRET_KEY'', s)] [] = Inr c"
    using settings_secret_appended [of vi va "[]" s "[]"]
    by (simp add: settings_defaults c_def)
next
  assume "s \<noteq> [] \<and> in_datetime_range (t_exp + timedelta_hours 24) \<and> t_iat \<le> now
            \<and> now < timegm (t_exp + timedelta_hours 24) * 1000000"
  then show "verify_access_token mac c now (create_access_token mac c t_exp t_iat u None)
              = ([], Inr (Some u))"
    by (simp add: verify_access_created c_def)
qed

text \<open>
  A ten-character secret added to an environment that sets the algorithm under a
  lower-case name, next to a \<^verbatim>\<open>.env\<close> that sets the lifetime.
\<close>

theorem settings_accept_any_secret_witness:
  "Settings py_int sample_accepts
       [(''jwt_algorithm'', ''HS512''), (''JWT_SECRET_KEY'', ''0123456789'')]
       [(''Jwt_Expiration_Hours'', ''2'')]
     = Inr \<lparr> JWT_SECRET_KEY = ''0123456789'', JWT_ALGORITHM = ''HS512'',
             JWT_EXPIRATION_HOURS = 2, JWT_REFRESH_EXPIRATION_DAYS = 7, BCRYPT_COST = 12 \<rparr>
   \<and> verify_access_token sample_mac
        \<lparr> JWT_SECRET_KEY = ''0123456789'', JWT_ALGORITHM = ''HS256'',
          JWT_EXPIRATION_HOURS = 24, JWT_REFRESH_EXPIRATION_DAYS = 7, BCRYPT_COST = 12 \<rparr>
        1500000
        (create_access_token sample_mac
           \<lparr> JWT_SECRET_KEY = ''0123456789'', JWT_ALGORITHM = ''HS256'',
             JWT_EXPIRATION_HOURS = 24, JWT_REFRESH_EXPIRATION_DAYS = 7, BCRYPT_COST = 12 \<rparr>
           1200000 1300000 42 None)
       = ([], Inr (Some 42))"
proof -
  have base: "Settings py_int sample_accepts [(''jwt_algorithm'', ''HS512'')]
                [(''Jwt_Expiration_Hours'', ''2'')]
      = Inr \<lparr> JWT_SECRET_KEY = ''your-secret-key-change-in-production-min-32-chars'',
              JWT_ALGORITHM = ''HS512'', JWT_EXPIRATION_HOURS = 2,
              JWT_REFRESH_EXPIRATION_DAYS = 7, BCRYPT_COST = 12 \<rparr>"
    by code_simp
  show ?thesis
    using settings_accept_any_secret [where vi = py_int and va = sample_accepts
        and environ = "[(''jwt_algorithm'', ''HS512'')]" and s = "''0123456789''"
        and dotenv = "[(''Jwt_Expiration_Hours'', ''2'')]"
        and mac = sample_mac and t_exp = 1200000 and t_iat = 1300000 and now = 1500000
        and u = 42]
    by (simp add: base in_datetime_range_def timegm_def timedelta_hours_def)
qed

text \<open>
  The claim as stated fails for the five-character secret \<open>short\<close>: the configuration is
  constructed, and tokens are issued and verified under it.
\<close>

theorem short_secret_counterexample:
  "Settings py_int sample_accepts short_env []
     = Inr \<lparr> JWT_SECRET_KEY = ''short'', JWT_ALGORITHM = ''HS256'', JWT_EXPIRATION_HOURS = 24,
             JWT_REFRESH_EXPIRATION_DAYS = 7, BCRYPT_COST = 12 \<rparr>
   \<and> length ''short'' < 32
   \<and> verify_access_token sample_mac
        \<lparr> JWT_SECRET_KEY = ''short'', JWT_ALGORITHM = ''HS256'', JWT_EXPIRATION_HOURS = 24,
          JWT_REFRESH_EXPIRATION_DAYS = 7, BCRYPT_COST = 12 \<rparr> 1500000
        (create_access_token sample_mac
           \<lparr> JWT_SECRET_KEY = ''short'', JWT_ALGORITHM = ''HS256'', JWT_EXPIRATION_HOURS = 24,
             JWT_REFRESH_EXPIRATION_DAYS = 7, BCRYPT_COST = 12 \<rparr> 1200000 1300000 42 None)
       = ([], Inr (Some 42))"
proof -
  have "Settings py_int sample_accepts short_env []
     = Inr \<lparr> JWT_SECRET_KEY = ''short'', JWT_ALGORITHM = ''HS256'', JWT_EXPIRATION_HOURS = 24,
             JWT_REFRESH_EXPIRATION_DAYS = 7, BCRYPT_COST = 12 \<rparr>"
    using settings_secret_appended [of py_int sample_accepts "[]" "''short''" "[]"]
    by (simp add: settings_defaults short_env_def)
  then show ?thesis
    by (simp add: verify_access_created timegm_def timedelta_hours_def)
qed

end
